theory Spec2Isabelle
  imports Main "HOL-Library.Word"
begin

section \<open>The relational store\<close>

text \<open>
  SQLite is dynamically typed: whatever the declared column type, a cell holds NULL, an
  integer, a floating point number or a text (the repository never writes a BLOB, and the
  model leaves that storage class out). A floating point number is carried as the 64 bits of
  its IEEE-754 encoding; the program only passes such numbers on, it never computes with them.
\<close>

type_synonym float64 = "64 word"

datatype sqlval = SNull | SInt int | SReal float64 | SText string

text \<open>The four tables of \<^verbatim>\<open>setup_database.py\<close>, one record per \<^verbatim>\<open>CREATE TABLE\<close>.\<close>

record customer_row =
  c_customer_id :: sqlval
  c_account_number :: sqlval
  c_customer_first_name :: sqlval
  c_customer_last_name :: sqlval
  c_email :: sqlval
  c_phone_number :: sqlval
  c_customer_start_date :: sqlval
  c_years_as_customer :: sqlval
  c_billing_address_street :: sqlval
  c_billing_address_city :: sqlval
  c_billing_address_state :: sqlval
  c_billing_address_zip :: sqlval
  c_loyalty_points :: sqlval
  c_preferred_store :: sqlval
  c_comm_pref_email :: sqlval
  c_comm_pref_sms :: sqlval
  c_comm_pref_push :: sqlval
  c_garden_type :: sqlval
  c_garden_size :: sqlval
  c_garden_sun_exposure :: sqlval
  c_garden_soil_type :: sqlval
  c_garden_interests :: sqlval
  c_scheduled_appointments :: sqlval

record product_row =
  pr_product_id :: sqlval
  pr_name :: sqlval

text \<open>
  \<^verbatim>\<open>purchase_id INTEGER PRIMARY KEY AUTOINCREMENT\<close> is the rowid of the table: SQLite
  stores an integer there whatever is inserted, so the column is an \<^typ>\<open>int\<close>.
\<close>

record purchase_row =
  p_purchase_id :: int
  p_customer_id :: sqlval
  p_date :: sqlval
  p_total_amount :: sqlval

record purchase_item_row =
  pi_purchase_item_id :: int
  pi_purchase_id :: sqlval
  pi_product_id :: sqlval
  pi_quantity :: sqlval

record store =
  customers :: "customer_row list"
  products :: "product_row list"
  purchases :: "purchase_row list"
  purchase_items :: "purchase_item_row list"

text \<open>A row of the three-column join \<^verbatim>\<open>SELECT pi.product_id, pi.quantity, p.name\<close>.\<close>

record item_row =
  it_product_id :: sqlval
  it_quantity :: sqlval
  it_name :: sqlval

section \<open>The nested models of \<^verbatim>\<open>entities/customer.py\<close>\<close>

record address =
  a_street :: string
  a_city :: string
  a_state :: string
  a_zip :: string

record product =
  prod_product_id :: string
  prod_name :: string
  prod_quantity :: int

record purchase =
  pur_date :: string
  pur_items :: "product list"
  pur_total_amount :: float64

record communication_preferences =
  cp_email :: bool
  cp_sms :: bool
  cp_push_notifications :: bool

record garden_profile =
  gp_type :: string
  gp_size :: string
  gp_sun_exposure :: string
  gp_soil_type :: string
  gp_interests :: "string list"

record customer =
  account_number :: string
  customer_id :: string
  customer_first_name :: string
  customer_last_name :: string
  email :: string
  phone_number :: "string option"
  customer_start_date :: string
  years_as_customer :: int
  billing_address :: address
  purchase_history :: "purchase list"
  loyalty_points :: int
  preferred_store :: string
  communication_preferences :: communication_preferences
  garden_profile :: "garden_profile option"

text \<open>
  \<^verbatim>\<open>customer_data\<close>, the keyword dictionary built at lines 149 to 153: every column of the
  customer row (\<^verbatim>\<open>dict(customer_row)\<close>) and the four reconstructed entries.
\<close>

record customer_data =
  cd_row :: customer_row
  cd_billing_address :: address
  cd_purchase_history :: "purchase list"
  cd_communication_preferences :: communication_preferences
  cd_garden_profile :: "garden_profile option"

section \<open>Exceptions, library functions and effects\<close>

text \<open>The operations on the store that can fail with an \<^verbatim>\<open>sqlite3.Error\<close>.\<close>

datatype dbop = Connect | OpenCursor | SelectCustomer | SelectPurchases | SelectItems int

text \<open>
  The exceptions that can leave the \<^verbatim>\<open>try\<close> suite. Only \<open>SqliteError\<close> is an
  \<^verbatim>\<open>sqlite3.Error\<close>; \<open>ValidationError\<close> is pydantic's, \<open>JSONDecodeError\<close> and \<open>TypeError\<close> come
  from \<^verbatim>\<open>json.loads\<close>, \<open>NameError\<close> from the evaluation of an unbound name.
\<close>

datatype error = SqliteError dbop | ValidationError | JSONDecodeError | TypeError | NameError

datatype json =
  JNull | JBool bool | JInt int | JFloat float64 | JStr string
  | JArr "json list" | JObj "(string \<times> json) list"

text \<open>
  The text parsers and number conversions of the Python libraries are parameters of the
  model: \<open>json_loads\<close> is \<^verbatim>\<open>json.loads\<close> on a \<^verbatim>\<open>str\<close> (\<open>None\<close> when it raises
  \<^verbatim>\<open>json.JSONDecodeError\<close>), the other four are the coercions pydantic applies to an
  \<^verbatim>\<open>int\<close> or \<^verbatim>\<open>float\<close> field in its default (lax) mode.
\<close>

record pylib =
  json_loads :: "string \<Rightarrow> json option"
  int_of_str :: "string \<Rightarrow> int option"
  int_of_float :: "float64 \<Rightarrow> int option"
  float_of_str :: "string \<Rightarrow> float64 option"
  float_of_int :: "int \<Rightarrow> float64"

datatype conn = NoConn | ConnOpen | ConnClosed

datatype message = NotFoundMsg string | DatabaseErrorMsg dbop

text \<open>What a call leaves behind: the state of \<^verbatim>\<open>conn\<close> and the lines printed.\<close>

record world =
  conn :: conn
  stdout :: "message list"

definition and_then :: "error + 'a \<Rightarrow> ('a \<Rightarrow> error + 'b) \<Rightarrow> error + 'b" where
  "and_then m f = (case m of Inl e \<Rightarrow> Inl e | Inr x \<Rightarrow> f x)"

definition db_op :: "dbop set \<Rightarrow> dbop \<Rightarrow> 'a \<Rightarrow> error + 'a" where
  "db_op faults op v = (if op \<in> faults then Inl (SqliteError op) else Inr v)"

subsection \<open>Python's \<^verbatim>\<open>bool\<close> and pydantic's field validation\<close>

text \<open>Truth value of a cell: None, 0, 0.0, -0.0 and the empty string are false.\<close>

fun py_bool :: "sqlval \<Rightarrow> bool" where
  "py_bool SNull = False"
| "py_bool (SInt n) = (n \<noteq> 0)"
| "py_bool (SReal x) = (x \<noteq> 0 \<and> x \<noteq> 0x8000000000000000)"
| "py_bool (SText s) = (s \<noteq> [])"

fun validate_str :: "sqlval \<Rightarrow> error + string" where
  "validate_str (SText s) = Inr s"
| "validate_str _ = Inl ValidationError"

fun validate_int :: "pylib \<Rightarrow> sqlval \<Rightarrow> error + int" where
  "validate_int L (SInt n) = Inr n"
| "validate_int L (SReal x) =
     (case int_of_float L x of None \<Rightarrow> Inl ValidationError | Some n \<Rightarrow> Inr n)"
| "validate_int L (SText s) =
     (case int_of_str L s of None \<Rightarrow> Inl ValidationError | Some n \<Rightarrow> Inr n)"
| "validate_int L SNull = Inl ValidationError"

fun validate_float :: "pylib \<Rightarrow> sqlval \<Rightarrow> error + float64" where
  "validate_float L (SReal x) = Inr x"
| "validate_float L (SInt n) = Inr (float_of_int L n)"
| "validate_float L (SText s) =
     (case float_of_str L s of None \<Rightarrow> Inl ValidationError | Some x \<Rightarrow> Inr x)"
| "validate_float L SNull = Inl ValidationError"

fun json_strs :: "json list \<Rightarrow> string list option" where
  "json_strs [] = Some []"
| "json_strs (JStr s # js) = map_option ((#) s) (json_strs js)"
| "json_strs (_ # js) = None"

text \<open>A \<^verbatim>\<open>List[str]\<close> field accepts a list whose elements are all \<^verbatim>\<open>str\<close>.\<close>

fun validate_str_list :: "json \<Rightarrow> error + string list" where
  "validate_str_list (JArr js) =
     (case json_strs js of None \<Rightarrow> Inl ValidationError | Some ss \<Rightarrow> Inr ss)"
| "validate_str_list _ = Inl ValidationError"

text \<open>\<^verbatim>\<open>json.loads\<close> applied to a cell: anything but a \<^verbatim>\<open>str\<close> is a \<^verbatim>\<open>TypeError\<close>.\<close>

fun json_loads_cell :: "pylib \<Rightarrow> sqlval \<Rightarrow> error + json" where
  "json_loads_cell L (SText s) =
     (case json_loads L s of None \<Rightarrow> Inl JSONDecodeError | Some j \<Rightarrow> Inr j)"
| "json_loads_cell L _ = Inl TypeError"

subsection \<open>The model constructors\<close>

definition Address :: "sqlval \<Rightarrow> sqlval \<Rightarrow> sqlval \<Rightarrow> sqlval \<Rightarrow> error + address" where
  "Address street city state zip_code =
     and_then (validate_str street) (\<lambda>s.
     and_then (validate_str city) (\<lambda>c.
     and_then (validate_str state) (\<lambda>st.
     and_then (validate_str zip_code) (\<lambda>z.
     Inr \<lparr>a_street = s, a_city = c, a_state = st, a_zip = z\<rparr>))))"

definition Product :: "pylib \<Rightarrow> sqlval \<Rightarrow> sqlval \<Rightarrow> sqlval \<Rightarrow> error + product" where
  "Product L pid name quantity =
     and_then (validate_str pid) (\<lambda>i.
     and_then (validate_str name) (\<lambda>n.
     and_then (validate_int L quantity) (\<lambda>q.
     Inr \<lparr>prod_product_id = i, prod_name = n, prod_quantity = q\<rparr>)))"

definition Purchase :: "pylib \<Rightarrow> sqlval \<Rightarrow> product list \<Rightarrow> sqlval \<Rightarrow> error + purchase" where
  "Purchase L date items total_amount =
     and_then (validate_str date) (\<lambda>d.
     and_then (validate_float L total_amount) (\<lambda>t.
     Inr \<lparr>pur_date = d, pur_items = items, pur_total_amount = t\<rparr>))"

definition CommunicationPreferences :: "bool \<Rightarrow> bool \<Rightarrow> bool \<Rightarrow> communication_preferences" where
  "CommunicationPreferences e s p = \<lparr>cp_email = e, cp_sms = s, cp_push_notifications = p\<rparr>"

definition GardenProfile ::
  "sqlval \<Rightarrow> sqlval \<Rightarrow> sqlval \<Rightarrow> sqlval \<Rightarrow> json \<Rightarrow> error + garden_profile" where
  "GardenProfile gtype gsize sun_exposure soil_type interests =
     and_then (validate_str gtype) (\<lambda>t.
     and_then (validate_str gsize) (\<lambda>sz.
     and_then (validate_str sun_exposure) (\<lambda>su.
     and_then (validate_str soil_type) (\<lambda>so.
     and_then (validate_str_list interests) (\<lambda>is.
     Inr \<lparr>gp_type = t, gp_size = sz, gp_sun_exposure = su, gp_soil_type = so,
          gp_interests = is\<rparr>)))))"

section \<open>The three queries\<close>

text \<open>
  \<^verbatim>\<open>SELECT * FROM customers WHERE customer_id = ?\<close> followed by \<^verbatim>\<open>fetchone()\<close>: the
  first row, in storage order, whose key is the text bound to the parameter. NULL is equal
  to nothing, and the comparison is the binary one of the default collation.
\<close>

definition fetchone_customer :: "store \<Rightarrow> string \<Rightarrow> customer_row option" where
  "fetchone_customer db cid = find (\<lambda>r. c_customer_id r = SText cid) (customers db)"

text \<open>\<^verbatim>\<open>SELECT * FROM purchases WHERE customer_id = ?\<close> followed by \<^verbatim>\<open>fetchall()\<close>.\<close>

definition fetchall_purchases :: "store \<Rightarrow> string \<Rightarrow> purchase_row list" where
  "fetchall_purchases db cid = filter (\<lambda>p. p_customer_id p = SText cid) (purchases db)"

text \<open>
  The join of \<^verbatim>\<open>purchase_items\<close> and \<^verbatim>\<open>products\<close> for one purchase. No \<^verbatim>\<open>ORDER BY\<close> is
  given, the order is the store's: the model takes the items in storage order and, for each,
  the products of that id in storage order.
\<close>

definition fetchall_items :: "store \<Rightarrow> int \<Rightarrow> item_row list" where
  "fetchall_items db pid =
     concat (map (\<lambda>i. map (\<lambda>p. \<lparr>it_product_id = pi_product_id i,
                                 it_quantity = pi_quantity i,
                                 it_name = pr_name p\<rparr>)
                         (filter (\<lambda>p. pi_product_id i \<noteq> SNull
                                       \<and> pr_product_id p = pi_product_id i) (products db)))
                 (filter (\<lambda>i. pi_purchase_id i = SInt pid) (purchase_items db)))"

section \<open>\<^verbatim>\<open>Customer.get_customer\<close>\<close>

text \<open>Lines 108 to 112.\<close>

definition comm_prefs_of :: "customer_row \<Rightarrow> communication_preferences" where
  "comm_prefs_of customer_row =
     CommunicationPreferences (py_bool (c_comm_pref_email customer_row))
                              (py_bool (c_comm_pref_sms customer_row))
                              (py_bool (c_comm_pref_push customer_row))"

text \<open>
  Lines 114 to 122. The arguments of \<^verbatim>\<open>GardenProfile\<close> are evaluated before the call, so
  an error of \<^verbatim>\<open>json.loads\<close> comes before any validation error.
\<close>

definition garden_profile_of :: "pylib \<Rightarrow> customer_row \<Rightarrow> error + garden_profile option" where
  "garden_profile_of L customer_row =
     (if py_bool (c_garden_type customer_row) then
        and_then (json_loads_cell L (c_garden_interests customer_row)) (\<lambda>interests.
        and_then (GardenProfile (c_garden_type customer_row) (c_garden_size customer_row)
                    (c_garden_sun_exposure customer_row) (c_garden_soil_type customer_row)
                    interests) (\<lambda>g.
        Inr (Some g)))
      else Inr None)"

text \<open>The list comprehension of lines 138 and 139.\<close>

fun items_of :: "pylib \<Rightarrow> item_row list \<Rightarrow> error + product list" where
  "items_of L [] = Inr []"
| "items_of L (item # item_rows) =
     (case Product L (it_product_id item) (it_name item) (it_quantity item) of
        Inl e \<Rightarrow> Inl e
      | Inr p \<Rightarrow> (case items_of L item_rows of Inl e \<Rightarrow> Inl e | Inr ps \<Rightarrow> Inr (p # ps)))"

text \<open>
  The loop of lines 129 to 146 over the purchase rows still to be visited;
  \<open>history\<close> is \<^verbatim>\<open>purchase_history\<close>, the list appended to so far.
\<close>

fun purchase_loop ::
  "pylib \<Rightarrow> store \<Rightarrow> dbop set \<Rightarrow> purchase_row list \<Rightarrow> purchase list \<Rightarrow> error + purchase list"
where
  "purchase_loop L db faults [] history = Inr history"
| "purchase_loop L db faults (purchase_row # purchase_rows) history =
     (case db_op faults (SelectItems (p_purchase_id purchase_row))
             (fetchall_items db (p_purchase_id purchase_row)) of
        Inl e \<Rightarrow> Inl e
      | Inr item_rows \<Rightarrow>
     (case items_of L item_rows of
        Inl e \<Rightarrow> Inl e
      | Inr items \<Rightarrow>
     (case Purchase L (p_date purchase_row) items (p_total_amount purchase_row) of
        Inl e \<Rightarrow> Inl e
      | Inr purchase \<Rightarrow>
          purchase_loop L db faults purchase_rows (history @ [purchase]))))"

text \<open>Lines 100 to 153: from the customer row to the keyword dictionary.\<close>

definition reconstruct ::
  "pylib \<Rightarrow> store \<Rightarrow> dbop set \<Rightarrow> string \<Rightarrow> customer_row \<Rightarrow> error + customer_data" where
  "reconstruct L db faults cid customer_row =
     and_then (Address (c_billing_address_street customer_row)
                       (c_billing_address_city customer_row)
                       (c_billing_address_state customer_row)
                       (c_billing_address_zip customer_row)) (\<lambda>billing_address.
     and_then (Inr (comm_prefs_of customer_row)) (\<lambda>comm_prefs.
     and_then (garden_profile_of L customer_row) (\<lambda>garden.
     and_then (db_op faults SelectPurchases (fetchall_purchases db cid)) (\<lambda>purchase_rows.
     and_then (purchase_loop L db faults purchase_rows []) (\<lambda>history.
     Inr \<lparr>cd_row = customer_row,
          cd_billing_address = billing_address,
          cd_purchase_history = history,
          cd_communication_preferences = comm_prefs,
          cd_garden_profile = garden\<rparr>)))))"

text \<open>
  Line 155, \<^verbatim>\<open>return cls(**customer_data)\<close>. The function is declared
  \<^verbatim>\<open>def get_customer(customer_id: str)\<close>: \<^verbatim>\<open>cls\<close> is not a parameter, no local and no
  global of the module, so the evaluation of the name raises \<^verbatim>\<open>NameError\<close> before
  \<^verbatim>\<open>customer_data\<close> is looked at.
\<close>

definition cls_call :: "customer_data \<Rightarrow> error + customer option" where
  "cls_call customer_data = Inl NameError"

text \<open>
  The function is modelled as it is declared, \<^verbatim>\<open>def get_customer(customer_id: str)\<close>,
  applied to a \<^verbatim>\<open>str\<close>. The decorator \<^verbatim>\<open>@classmethod\<close> of line 81 changes how the
  function is reached, not its body: an attribute access \<^verbatim>\<open>Customer.get_customer\<close> passes
  the class as first argument, and as the declaration has one parameter only, a call with a
  customer id through the class raises \<^verbatim>\<open>TypeError\<close> before the body runs.

  The \<^verbatim>\<open>try\<close> suite, lines 88 to 155, with the state it leaves.
\<close>

definition get_customer_try ::
  "pylib \<Rightarrow> store \<Rightarrow> dbop set \<Rightarrow> string \<Rightarrow> (error + customer option) \<times> world" where
  "get_customer_try L db faults cid =
     (if Connect \<in> faults then (Inl (SqliteError Connect), \<lparr>conn = NoConn, stdout = []\<rparr>)
      else if OpenCursor \<in> faults
        then (Inl (SqliteError OpenCursor), \<lparr>conn = ConnOpen, stdout = []\<rparr>)
      else if SelectCustomer \<in> faults
        then (Inl (SqliteError SelectCustomer), \<lparr>conn = ConnOpen, stdout = []\<rparr>)
      else (case fetchone_customer db cid of
              None \<Rightarrow> (Inr None, \<lparr>conn = ConnOpen, stdout = [NotFoundMsg cid]\<rparr>)
            | Some customer_row \<Rightarrow>
                (and_then (reconstruct L db faults cid customer_row) cls_call,
                 \<lparr>conn = ConnOpen, stdout = []\<rparr>)))"

text \<open>
  The whole function: the \<^verbatim>\<open>except sqlite3.Error\<close> clause of lines 157 to 159 and the
  \<^verbatim>\<open>finally\<close> clause of lines 160 to 162 around the suite.
\<close>

definition except_clause :: "(error + customer option) \<times> world \<Rightarrow> (error + customer option) \<times> world" where
  "except_clause rw =
     (case fst rw of
        Inl (SqliteError e) \<Rightarrow>
          (Inr None, (snd rw)\<lparr>stdout := stdout (snd rw) @ [DatabaseErrorMsg e]\<rparr>)
      | _ \<Rightarrow> rw)"

definition finally_clause :: "(error + customer option) \<times> world \<Rightarrow> (error + customer option) \<times> world" where
  "finally_clause rw =
     (fst rw, if conn (snd rw) = ConnOpen then (snd rw)\<lparr>conn := ConnClosed\<rparr> else snd rw)"

definition get_customer ::
  "pylib \<Rightarrow> store \<Rightarrow> dbop set \<Rightarrow> string \<Rightarrow> (error + customer option) \<times> world" where
  "get_customer L db faults cid = finally_clause (except_clause (get_customer_try L db faults cid))"

section \<open>Well-formed rows\<close>

text \<open>
  A stored field satisfies its target type when the validation of the model field it is
  passed to succeeds. The predicates below follow the field types of the classes
  \<^verbatim>\<open>Address\<close>, \<^verbatim>\<open>GardenProfile\<close>, \<^verbatim>\<open>Product\<close> and \<^verbatim>\<open>Purchase\<close>.
\<close>

definition is_valid :: "error + 'a \<Rightarrow> bool" where
  "is_valid r = (case r of Inl e \<Rightarrow> False | Inr x \<Rightarrow> True)"

definition address_ok :: "customer_row \<Rightarrow> bool" where
  "address_ok row =
     (is_valid (validate_str (c_billing_address_street row))
      \<and> is_valid (validate_str (c_billing_address_city row))
      \<and> is_valid (validate_str (c_billing_address_state row))
      \<and> is_valid (validate_str (c_billing_address_zip row)))"

definition interests_ok :: "pylib \<Rightarrow> sqlval \<Rightarrow> bool" where
  "interests_ok L v = is_valid (and_then (json_loads_cell L v) validate_str_list)"

text \<open>The garden columns have a target type only when \<^verbatim>\<open>garden_type\<close> is true.\<close>

definition garden_ok :: "pylib \<Rightarrow> customer_row \<Rightarrow> bool" where
  "garden_ok L row =
     (if py_bool (c_garden_type row)
      then is_valid (validate_str (c_garden_type row))
           \<and> is_valid (validate_str (c_garden_size row))
           \<and> is_valid (validate_str (c_garden_sun_exposure row))
           \<and> is_valid (validate_str (c_garden_soil_type row))
           \<and> interests_ok L (c_garden_interests row)
      else True)"

definition item_ok :: "pylib \<Rightarrow> item_row \<Rightarrow> bool" where
  "item_ok L item =
     (is_valid (validate_str (it_product_id item))
      \<and> is_valid (validate_str (it_name item))
      \<and> is_valid (validate_int L (it_quantity item)))"

definition purchase_ok :: "pylib \<Rightarrow> store \<Rightarrow> purchase_row \<Rightarrow> bool" where
  "purchase_ok L db p =
     (list_all (item_ok L) (fetchall_items db (p_purchase_id p))
      \<and> is_valid (validate_str (p_date p))
      \<and> is_valid (validate_float L (p_total_amount p)))"

definition well_formed :: "pylib \<Rightarrow> store \<Rightarrow> string \<Rightarrow> customer_row \<Rightarrow> bool" where
  "well_formed L db cid row =
     (address_ok row \<and> garden_ok L row
      \<and> list_all (purchase_ok L db) (fetchall_purchases db cid))"

text \<open>The errors a failed construction raises: none of them is an \<^verbatim>\<open>sqlite3.Error\<close>.\<close>

fun construction_error :: "error \<Rightarrow> bool" where
  "construction_error ValidationError = True"
| "construction_error JSONDecodeError = True"
| "construction_error TypeError = True"
| "construction_error _ = False"


section \<open>The sample data of \<^verbatim>\<open>setup_database.py\<close>\<close>

definition seed_customer :: customer_row where
  "seed_customer =
     \<lparr>c_customer_id = SText ''CUST001'',
      c_account_number = SText ''ACC12345'',
      c_customer_first_name = SText ''John'',
      c_customer_last_name = SText ''Smith'',
      c_email = SText ''john.smith@email.com'',
      c_phone_number = SText ''555-0123'',
      c_customer_start_date = SText ''2020-05-01'',
      c_years_as_customer = SInt 4,
      c_billing_address_street = SText ''123 Garden Lane'',
      c_billing_address_city = SText ''Springfield'',
      c_billing_address_state = SText ''IL'',
      c_billing_address_zip = SText ''62701'',
      c_loyalty_points = SInt 250,
      c_preferred_store = SText ''Springfield Garden Center'',
      c_comm_pref_email = SInt 1,
      c_comm_pref_sms = SInt 0,
      c_comm_pref_push = SInt 1,
      c_garden_type = SText ''Vegetable Garden'',
      c_garden_size = SText ''Medium'',
      c_garden_sun_exposure = SText ''Full Sun'',
      c_garden_soil_type = SText ''Loamy'',
      c_garden_interests = SText ''Organic Gardening,Composting,Herb Growing'',
      c_scheduled_appointments = SText ''{}''\<rparr>"

definition seed_products :: "product_row list" where
  "seed_products =
     [\<lparr>pr_product_id = SText ''fert-111'', pr_name = SText ''All-Purpose Fertilizer''\<rparr>,
      \<lparr>pr_product_id = SText ''trowel-222'', pr_name = SText ''Gardening Trowel''\<rparr>,
      \<lparr>pr_product_id = SText ''seeds-333'', pr_name = SText ''Tomato Seeds (Variety Pack)''\<rparr>,
      \<lparr>pr_product_id = SText ''pots-444'', pr_name = SText ''Terracotta Pots (6-inch)''\<rparr>,
      \<lparr>pr_product_id = SText ''gloves-555'', pr_name = SText ''Gardening Gloves (Leather)''\<rparr>,
      \<lparr>pr_product_id = SText ''pruner-666'', pr_name = SText ''Pruning Shears''\<rparr>]"

text \<open>The totals 35.98, 42.50 and 55.25 as IEEE-754 doubles.\<close>

definition seed_purchases :: "purchase_row list" where
  "seed_purchases =
     [\<lparr>p_purchase_id = 1, p_customer_id = SText ''CUST001'', p_date = SText ''2023-03-05'',
       p_total_amount = SReal 0x4041FD70A3D70A3D\<rparr>,
      \<lparr>p_purchase_id = 2, p_customer_id = SText ''CUST001'', p_date = SText ''2023-07-12'',
       p_total_amount = SReal 0x4045400000000000\<rparr>,
      \<lparr>p_purchase_id = 3, p_customer_id = SText ''CUST001'', p_date = SText ''2024-01-20'',
       p_total_amount = SReal 0x404BA00000000000\<rparr>]"

definition seed_purchase_items :: "purchase_item_row list" where
  "seed_purchase_items =
     [\<lparr>pi_purchase_item_id = 1, pi_purchase_id = SInt 1, pi_product_id = SText ''fert-111'',
       pi_quantity = SInt 1\<rparr>,
      \<lparr>pi_purchase_item_id = 2, pi_purchase_id = SInt 1, pi_product_id = SText ''trowel-222'',
       pi_quantity = SInt 1\<rparr>,
      \<lparr>pi_purchase_item_id = 3, pi_purchase_id = SInt 2, pi_product_id = SText ''seeds-333'',
       pi_quantity = SInt 2\<rparr>,
      \<lparr>pi_purchase_item_id = 4, pi_purchase_id = SInt 2, pi_product_id = SText ''pots-444'',
       pi_quantity = SInt 4\<rparr>,
      \<lparr>pi_purchase_item_id = 5, pi_purchase_id = SInt 3, pi_product_id = SText ''gloves-555'',
       pi_quantity = SInt 1\<rparr>,
      \<lparr>pi_purchase_item_id = 6, pi_purchase_id = SInt 3, pi_product_id = SText ''pruner-666'',
       pi_quantity = SInt 1\<rparr>]"

definition seed_store :: store where
  "seed_store =
     \<lparr>customers = [seed_customer], products = seed_products,
      purchases = seed_purchases, purchase_items = seed_purchase_items\<rparr>"

text \<open>
  The same customer with the interests stored as the JSON text of the list, the form
  \<^verbatim>\<open>json.loads\<close> reads.
\<close>

definition interests_json :: string where
  \<open>interests_json = ''["Organic Gardening","Composting","Herb Growing"]''\<close>

definition interests_list :: json where
  "interests_list = JArr [JStr ''Organic Gardening'', JStr ''Composting'', JStr ''Herb Growing'']"

definition json_customer :: customer_row where
  "json_customer = seed_customer\<lparr>c_garden_interests := SText interests_json\<rparr>"

definition json_store :: store where
  "json_store = seed_store\<lparr>customers := [json_customer]\<rparr>"

text \<open>
  A library that decodes the one JSON text above and rejects every other text. On the
  sample data it is asked for that text and for the comma-separated text of the seeded row
  only, which \<^verbatim>\<open>json.loads\<close> rejects too (it is not JSON); no number is parsed there.
\<close>

definition sample_lib :: pylib where
  "sample_lib =
     \<lparr>json_loads = (\<lambda>s. if s = interests_json then Some interests_list else None),
      int_of_str = (\<lambda>s. None),
      int_of_float = (\<lambda>x. None),
      float_of_str = (\<lambda>s. None),
      float_of_int = (\<lambda>n. 0)\<rparr>"

section \<open>Properties of the model\<close>

subsection \<open>Auxiliary facts\<close>

lemma and_then_Inl [simp]: "and_then (Inl e) f = Inl e"
  by (simp add: and_then_def)

lemma and_then_Inr [simp]: "and_then (Inr x) f = f x"
  by (simp add: and_then_def)

lemma is_valid_Inl [simp]: "is_valid (Inl e) = False"
  by (simp add: is_valid_def)

lemma is_valid_Inr [simp]: "is_valid (Inr x) = True"
  by (simp add: is_valid_def)

lemma is_valid_iff: "is_valid r = (\<exists>x. r = Inr x)"
  by (cases r) simp_all

lemma db_op_no_faults [simp]: "db_op {} op v = Inr v"
  by (simp add: db_op_def)

lemma validate_str_error: "validate_str v = Inl e \<Longrightarrow> e = ValidationError"
  by (cases v) simp_all

lemma validate_int_error: "validate_int L v = Inl e \<Longrightarrow> e = ValidationError"
  by (cases v) (simp_all split: option.splits)

lemma validate_float_error: "validate_float L v = Inl e \<Longrightarrow> e = ValidationError"
  by (cases v) (simp_all split: option.splits)

lemma validate_str_list_error: "validate_str_list j = Inl e \<Longrightarrow> e = ValidationError"
  by (cases j) (simp_all split: option.splits)

lemma json_loads_cell_error:
  "json_loads_cell L v = Inl e \<Longrightarrow> e = JSONDecodeError \<or> e = TypeError"
  by (cases v) (simp_all split: option.splits)

lemma and_then_cases:
  "and_then m f = (case m of Inl e \<Rightarrow> Inl e | Inr x \<Rightarrow> f x)"
  by (simp add: and_then_def)

lemma Address_error: "Address a b c d = Inl e \<Longrightarrow> e = ValidationError"
  by (auto simp: Address_def and_then_def split: sum.splits dest: validate_str_error)

lemma Address_valid:
  "is_valid (Address a b c d) =
     (is_valid (validate_str a) \<and> is_valid (validate_str b)
      \<and> is_valid (validate_str c) \<and> is_valid (validate_str d))"
  by (simp add: Address_def and_then_def split: sum.splits)

lemma Product_error: "Product L a b c = Inl e \<Longrightarrow> e = ValidationError"
  by (auto simp: Product_def and_then_def split: sum.splits
      dest: validate_str_error validate_int_error)

lemma Product_valid:
  "is_valid (Product L a b c) =
     (is_valid (validate_str a) \<and> is_valid (validate_str b) \<and> is_valid (validate_int L c))"
  by (simp add: Product_def and_then_def split: sum.splits)

lemma Purchase_error: "Purchase L d is t = Inl e \<Longrightarrow> e = ValidationError"
  by (auto simp: Purchase_def and_then_def split: sum.splits
      dest: validate_str_error validate_float_error)

lemma Purchase_valid:
  "is_valid (Purchase L d is t) =
     (is_valid (validate_str d) \<and> is_valid (validate_float L t))"
  by (simp add: Purchase_def and_then_def split: sum.splits)

lemma GardenProfile_error: "GardenProfile a b c d j = Inl e \<Longrightarrow> e = ValidationError"
  by (auto simp: GardenProfile_def and_then_def split: sum.splits
      dest: validate_str_error validate_str_list_error)

lemma GardenProfile_valid:
  "is_valid (GardenProfile a b c d j) =
     (is_valid (validate_str a) \<and> is_valid (validate_str b) \<and> is_valid (validate_str c)
      \<and> is_valid (validate_str d) \<and> is_valid (validate_str_list j))"
  by (simp add: GardenProfile_def and_then_def split: sum.splits)

lemma garden_profile_of_error:
  "garden_profile_of L row = Inl e \<Longrightarrow> construction_error e"
  by (auto simp: garden_profile_of_def and_then_def split: if_splits sum.splits
      dest: json_loads_cell_error GardenProfile_error)

lemma garden_profile_of_valid: "is_valid (garden_profile_of L row) = garden_ok L row"
proof (cases "py_bool (c_garden_type row)")
  case False
  then show ?thesis by (simp add: garden_profile_of_def garden_ok_def)
next
  case True
  show ?thesis
  proof (cases "json_loads_cell L (c_garden_interests row)")
    case (Inl e)
    with True show ?thesis
      by (simp add: garden_profile_of_def garden_ok_def interests_ok_def)
  next
    case (Inr j)
    with True have "is_valid (garden_profile_of L row) =
        is_valid (GardenProfile (c_garden_type row) (c_garden_size row)
          (c_garden_sun_exposure row) (c_garden_soil_type row) j)"
      by (simp add: garden_profile_of_def and_then_def split: sum.splits)
    with True Inr show ?thesis
      by (simp add: garden_ok_def interests_ok_def GardenProfile_valid)
  qed
qed

lemma items_of_error: "items_of L rows = Inl e \<Longrightarrow> e = ValidationError"
  by (induction rows arbitrary: e) (auto split: sum.splits dest: Product_error)

lemma items_of_valid: "is_valid (items_of L rows) = list_all (item_ok L) rows"
proof (induction rows)
  case Nil
  show ?case by simp
next
  case (Cons item rows)
  have "is_valid (items_of L (item # rows)) =
      (is_valid (Product L (it_product_id item) (it_name item) (it_quantity item))
       \<and> is_valid (items_of L rows))"
    by (simp split: sum.splits)
  with Cons.IH show ?case by (simp add: item_ok_def Product_valid)
qed

lemma purchase_loop_error:
  "purchase_loop L db {} rows h = Inl e \<Longrightarrow> e = ValidationError"
  by (induction rows arbitrary: h)
     (auto split: sum.splits dest: items_of_error Purchase_error)

lemma purchase_loop_valid:
  "is_valid (purchase_loop L db {} rows h) = list_all (purchase_ok L db) rows"
proof (induction rows arbitrary: h)
  case Nil
  show ?case by simp
next
  case (Cons p rows)
  show ?case
  proof (cases "items_of L (fetchall_items db (p_purchase_id p))")
    case (Inl e)
    then have "\<not> list_all (item_ok L) (fetchall_items db (p_purchase_id p))"
      using items_of_valid [of L "fetchall_items db (p_purchase_id p)"] by simp
    with Inl show ?thesis by (simp add: purchase_ok_def)
  next
    case (Inr items)
    then have ok: "list_all (item_ok L) (fetchall_items db (p_purchase_id p))"
      using items_of_valid [of L "fetchall_items db (p_purchase_id p)"] by simp
    show ?thesis
    proof (cases "Purchase L (p_date p) items (p_total_amount p)")
      case (Inl e)
      then have "\<not> (is_valid (validate_str (p_date p))
                    \<and> is_valid (validate_float L (p_total_amount p)))"
        using Purchase_valid [of L "p_date p" items "p_total_amount p"] by simp
      with Inl Inr show ?thesis by (auto simp: purchase_ok_def)
    next
      case (Inr purchase)
      then have "is_valid (validate_str (p_date p))
                 \<and> is_valid (validate_float L (p_total_amount p))"
        using Purchase_valid [of L "p_date p" items "p_total_amount p"] by simp
      with Inr \<open>items_of L (fetchall_items db (p_purchase_id p)) = Inr items\<close> ok Cons.IH
      show ?thesis by (simp add: purchase_ok_def)
    qed
  qed
qed

lemma reconstruct_error:
  "reconstruct L db {} cid row = Inl e \<Longrightarrow> construction_error e"
  by (auto simp: reconstruct_def and_then_def split: sum.splits
      dest: Address_error garden_profile_of_error purchase_loop_error)

lemma reconstruct_valid:
  "is_valid (reconstruct L db {} cid row) = well_formed L db cid row"
proof -
  have "is_valid (reconstruct L db {} cid row) =
      (is_valid (Address (c_billing_address_street row) (c_billing_address_city row)
                  (c_billing_address_state row) (c_billing_address_zip row))
       \<and> is_valid (garden_profile_of L row)
       \<and> is_valid (purchase_loop L db {} (fetchall_purchases db cid) []))"
    by (simp add: reconstruct_def and_then_def split: sum.splits)
  then show ?thesis
    by (simp add: well_formed_def address_ok_def Address_valid garden_profile_of_valid
        purchase_loop_valid)
qed

lemma except_clause_sqlite [simp]:
  "except_clause (Inl (SqliteError op), w) =
     (Inr None, w\<lparr>stdout := stdout w @ [DatabaseErrorMsg op]\<rparr>)"
  by (simp add: except_clause_def)

lemma except_clause_other:
  "\<forall>op. r \<noteq> Inl (SqliteError op) \<Longrightarrow> except_clause (r, w) = (r, w)"
  by (cases r) (auto simp: except_clause_def split: error.splits)

lemma finally_clause_open [simp]:
  "finally_clause (r, \<lparr>conn = ConnOpen, stdout = out\<rparr>) = (r, \<lparr>conn = ConnClosed, stdout = out\<rparr>)"
  by (simp add: finally_clause_def)

lemma finally_clause_none [simp]:
  "finally_clause (r, \<lparr>conn = NoConn, stdout = out\<rparr>) = (r, \<lparr>conn = NoConn, stdout = out\<rparr>)"
  by (simp add: finally_clause_def)

lemma get_customer_found:
  "fetchone_customer db cid = Some row \<Longrightarrow>
   get_customer L db {} cid =
     finally_clause (except_clause (and_then (reconstruct L db {} cid row) cls_call,
                                    \<lparr>conn = ConnOpen, stdout = []\<rparr>))"
  by (simp add: get_customer_def get_customer_try_def)

lemma try_no_customer: "fst (get_customer_try L db faults cid) \<noteq> Inr (Some c)"
  by (simp add: get_customer_try_def and_then_def cls_call_def split: option.splits sum.splits)

lemma get_customer_no_customer: "fst (get_customer L db faults cid) \<noteq> Inr (Some c)"
proof -
  obtain r w where rw: "get_customer_try L db faults cid = (r, w)"
    by (cases "get_customer_try L db faults cid")
  with try_no_customer [of L db faults cid c] have "r \<noteq> Inr (Some c)" by simp
  then have "fst (except_clause (r, w)) \<noteq> Inr (Some c)"
    by (auto simp: except_clause_def split: sum.splits error.splits)
  with rw show ?thesis by (simp add: get_customer_def finally_clause_def)
qed

lemma json_store_found: "fetchone_customer json_store ''CUST001'' = Some json_customer"
  by (simp add: fetchone_customer_def json_store_def json_customer_def seed_customer_def)

lemma seed_store_found: "fetchone_customer seed_store ''CUST001'' = Some seed_customer"
  by (simp add: fetchone_customer_def seed_store_def seed_customer_def)


lemma json_purchases_ok:
  "list_all (purchase_ok L json_store) (fetchall_purchases json_store ''CUST001'')"
  by (simp add: purchase_ok_def fetchall_purchases_def fetchall_items_def item_ok_def
      json_store_def seed_store_def seed_purchases_def seed_purchase_items_def seed_products_def)

lemma json_customer_well_formed:
  "json_loads L interests_json = Some interests_list \<Longrightarrow>
   well_formed L json_store ''CUST001'' json_customer"
  by (simp add: well_formed_def json_purchases_ok address_ok_def garden_ok_def interests_ok_def
      json_customer_def seed_customer_def interests_list_def)

lemma db_op_error: "db_op faults op v = Inl e \<Longrightarrow> e = SqliteError op \<and> op \<in> faults"
  by (simp add: db_op_def split: if_splits)

lemma purchase_loop_sqlite:
  "purchase_loop L db faults rows h = Inl (SqliteError op) \<Longrightarrow>
   op \<in> faults \<and> (\<exists>i. op = SelectItems i)"
proof (induction rows arbitrary: h)
  case Nil
  then show ?case by simp
next
  case (Cons p rows)
  show ?case
  proof (cases "db_op faults (SelectItems (p_purchase_id p)) (fetchall_items db (p_purchase_id p))")
    case (Inl e)
    with Cons.prems db_op_error [OF Inl] show ?thesis by auto
  next
    case item_rows: (Inr item_rows)
    show ?thesis
    proof (cases "items_of L item_rows")
      case (Inl e)
      with Cons.prems item_rows items_of_error [OF Inl] show ?thesis by simp
    next
      case items: (Inr items)
      show ?thesis
      proof (cases "Purchase L (p_date p) items (p_total_amount p)")
        case (Inl e)
        with Cons.prems item_rows items Purchase_error [OF Inl] show ?thesis by simp
      next
        case (Inr purchase)
        with Cons.prems item_rows items Cons.IH [of "h @ [purchase]"] show ?thesis by simp
      qed
    qed
  qed
qed

lemma reconstruct_sqlite:
  assumes "reconstruct L db faults cid row = Inl (SqliteError op)"
  shows "op \<in> faults \<and> op \<noteq> Connect"
proof (cases "Address (c_billing_address_street row) (c_billing_address_city row)
                (c_billing_address_state row) (c_billing_address_zip row)")
  case (Inl e)
  with assms Address_error [OF Inl] show ?thesis by (simp add: reconstruct_def)
next
  case addr: (Inr a)
  show ?thesis
  proof (cases "garden_profile_of L row")
    case (Inl e)
    with assms addr garden_profile_of_error [OF Inl] show ?thesis
      by (auto simp: reconstruct_def)
  next
    case garden: (Inr g)
    show ?thesis
    proof (cases "db_op faults SelectPurchases (fetchall_purchases db cid)")
      case (Inl e)
      with assms addr garden db_op_error [OF Inl] show ?thesis
        by (auto simp: reconstruct_def)
    next
      case rows: (Inr rows)
      show ?thesis
      proof (cases "purchase_loop L db faults rows []")
        case (Inl e)
        with assms addr garden rows have "e = SqliteError op"
          by (simp add: reconstruct_def)
        with Inl purchase_loop_sqlite [of L db faults rows "[]" op] show ?thesis by auto
      next
        case (Inr h)
        with assms addr garden rows show ?thesis by (simp add: reconstruct_def)
      qed
    qed
  qed
qed

lemma try_sqlite_world:
  assumes "get_customer_try L db faults cid = (Inl (SqliteError op), w)"
  shows "w = \<lparr>conn = (if op = Connect then NoConn else ConnOpen), stdout = []\<rparr> \<and> op \<in> faults"
proof (cases "Connect \<in> faults \<or> OpenCursor \<in> faults \<or> SelectCustomer \<in> faults")
  case True
  with assms show ?thesis by (auto simp: get_customer_try_def split: if_splits)
next
  case False
  show ?thesis
  proof (cases "fetchone_customer db cid")
    case None
    with assms False show ?thesis by (simp add: get_customer_try_def)
  next
    case (Some row)
    with assms False have r: "and_then (reconstruct L db faults cid row) cls_call = Inl (SqliteError op)"
      and w: "w = \<lparr>conn = ConnOpen, stdout = []\<rparr>"
      by (simp_all add: get_customer_try_def)
    from r have "reconstruct L db faults cid row = Inl (SqliteError op)"
      by (cases "reconstruct L db faults cid row") (simp_all add: cls_call_def)
    from reconstruct_sqlite [OF this] w show ?thesis by simp
  qed
qed

lemma json_address:
  "Address (c_billing_address_street json_customer) (c_billing_address_city json_customer)
     (c_billing_address_state json_customer) (c_billing_address_zip json_customer)
   = Inr \<lparr>a_street = ''123 Garden Lane'', a_city = ''Springfield'', a_state = ''IL'',
          a_zip = ''62701''\<rparr>"
  by (simp add: Address_def json_customer_def seed_customer_def)

lemma json_garden:
  "json_loads L interests_json = Some interests_list \<Longrightarrow>
   garden_profile_of L json_customer =
     Inr (Some \<lparr>gp_type = ''Vegetable Garden'', gp_size = ''Medium'',
                gp_sun_exposure = ''Full Sun'', gp_soil_type = ''Loamy'',
                gp_interests = [''Organic Gardening'', ''Composting'', ''Herb Growing'']\<rparr>)"
  by (simp add: garden_profile_of_def GardenProfile_def json_customer_def seed_customer_def
      interests_list_def)


lemma seed_address:
  "Address (c_billing_address_street seed_customer) (c_billing_address_city seed_customer)
     (c_billing_address_state seed_customer) (c_billing_address_zip seed_customer)
   = Inr \<lparr>a_street = ''123 Garden Lane'', a_city = ''Springfield'', a_state = ''IL'',
          a_zip = ''62701''\<rparr>"
  by (simp add: Address_def seed_customer_def)

lemma seeded_interests_not_json:
  assumes "json_loads L ''Organic Gardening,Composting,Herb Growing'' = None"
  shows "get_customer L seed_store {} ''CUST001''
           = (Inl JSONDecodeError, \<lparr>conn = ConnClosed, stdout = []\<rparr>)"
proof -
  have "garden_profile_of L seed_customer = Inl JSONDecodeError"
    using assms by (simp add: garden_profile_of_def seed_customer_def)
  then have "reconstruct L seed_store {} ''CUST001'' seed_customer = Inl JSONDecodeError"
    by (simp add: reconstruct_def seed_address)
  then show ?thesis
    by (simp add: get_customer_found [OF seed_store_found] except_clause_def)
qed



lemma reconstruct_comm_prefs:
  "reconstruct L db faults cid row = Inr cd \<Longrightarrow>
   cd_communication_preferences cd = comm_prefs_of row"
  by (auto simp: reconstruct_def and_then_def split: sum.splits)


lemma conn_try:
  "conn (snd (get_customer_try L db faults cid)) = (if Connect \<in> faults then NoConn else ConnOpen)"
  by (simp add: get_customer_try_def split: option.splits)

lemma conn_except: "conn (snd (except_clause rw)) = conn (snd rw)"
  by (simp add: except_clause_def split: sum.splits error.splits)







lemma non_numeric_total_amount:
  assumes "json_loads L interests_json = Some interests_list"
    and "float_of_str L ''abc'' = None"
  shows "get_customer L
           (json_store\<lparr>purchases :=
              [\<lparr>p_purchase_id = 1, p_customer_id = SText ''CUST001'',
                p_date = SText ''2023-03-05'', p_total_amount = SText ''abc''\<rparr>]\<rparr>)
           {} ''CUST001''
         = (Inl ValidationError, \<lparr>conn = ConnClosed, stdout = []\<rparr>)"
proof -
  let ?db = "json_store\<lparr>purchases :=
              [\<lparr>p_purchase_id = 1, p_customer_id = SText ''CUST001'',
                p_date = SText ''2023-03-05'', p_total_amount = SText ''abc''\<rparr>]\<rparr>"
  have found: "fetchone_customer ?db ''CUST001'' = Some json_customer"
    using json_store_found by (simp add: fetchone_customer_def)
  have items: "items_of L (fetchall_items ?db 1) =
      Inr [\<lparr>prod_product_id = ''fert-111'', prod_name = ''All-Purpose Fertilizer'',
             prod_quantity = 1\<rparr>,
           \<lparr>prod_product_id = ''trowel-222'', prod_name = ''Gardening Trowel'',
             prod_quantity = 1\<rparr>]"
    by (simp add: fetchall_items_def json_store_def seed_store_def seed_purchase_items_def
        seed_products_def Product_def)
  have "reconstruct L ?db {} ''CUST001'' json_customer = Inl ValidationError"
    using assms(2)
    by (simp add: reconstruct_def json_address json_garden [OF assms(1)] fetchall_purchases_def
        items Purchase_def)
  then show ?thesis
    by (simp add: get_customer_found [OF found] except_clause_def)
qed

subsection \<open>The claims\<close>

text \<open>
  Claim C1 says that for a customer id with a matching, well-formed row the call returns a
  \<^verbatim>\<open>Customer\<close> built from the row, with the reconstructed address, preferences, garden
  profile and purchases. The code reconstructs all of these and then fails at line 155:
  whenever the row is found and well formed and the store does not fail, the call raises
  \<^verbatim>\<open>NameError\<close>, after closing the connection, and returns nothing.
\<close>

theorem well_formed_row_raises_NameError:
  assumes "fetchone_customer db cid = Some row"
    and "well_formed L db cid row"
  shows "get_customer L db {} cid = (Inl NameError, \<lparr>conn = ConnClosed, stdout = []\<rparr>)"
proof -
  from assms(2) obtain cd where "reconstruct L db {} cid row = Inr cd"
    using reconstruct_valid [of L db cid row] by (auto simp: is_valid_iff)
  then have "and_then (reconstruct L db {} cid row) cls_call = Inl NameError"
    by (simp add: cls_call_def)
  with assms(1) show ?thesis
    by (simp add: get_customer_found except_clause_def)
qed

theorem well_formed_row_raises_NameError_witness:
  "fetchone_customer json_store ''CUST001'' = Some json_customer
   \<and> well_formed sample_lib json_store ''CUST001'' json_customer
   \<and> get_customer sample_lib json_store {} ''CUST001''
       = (Inl NameError, \<lparr>conn = ConnClosed, stdout = []\<rparr>)"
proof -
  have wf: "well_formed sample_lib json_store ''CUST001'' json_customer"
    by (rule json_customer_well_formed) (simp add: sample_lib_def)
  from well_formed_row_raises_NameError [OF json_store_found wf] json_store_found wf
  show ?thesis by simp
qed

text \<open>
  Claim C2: every \<^verbatim>\<open>sqlite3.Error\<close> raised while opening or querying the store is caught
  by the one \<^verbatim>\<open>except\<close> clause. Whenever the \<^verbatim>\<open>try\<close> suite ends with such an error, the
  message \<^verbatim>\<open>Database error\<close> is printed and the call returns \<^verbatim>\<open>None\<close>, the value of the
  not-found case; and no call ever ends with an \<^verbatim>\<open>sqlite3.Error\<close>.
\<close>

theorem store_error_reported_as_absent:
  "(fst (get_customer_try L db faults cid) = Inl (SqliteError op) \<longrightarrow>
      get_customer L db faults cid =
        (Inr None, \<lparr>conn = (if op = Connect then NoConn else ConnClosed),
                    stdout = [DatabaseErrorMsg op]\<rparr>))
   \<and> (\<forall>op'. fst (get_customer L db faults cid) \<noteq> Inl (SqliteError op'))"
proof (intro conjI impI allI)
  assume a: "fst (get_customer_try L db faults cid) = Inl (SqliteError op)"
  obtain w where rw: "get_customer_try L db faults cid = (Inl (SqliteError op), w)"
    using a by (cases "get_customer_try L db faults cid") simp
  from try_sqlite_world [OF rw] rw
  show "get_customer L db faults cid =
        (Inr None, \<lparr>conn = (if op = Connect then NoConn else ConnClosed),
                    stdout = [DatabaseErrorMsg op]\<rparr>)"
    by (simp add: get_customer_def finally_clause_def)
next
  fix op'
  obtain r w where rw: "get_customer_try L db faults cid = (r, w)"
    by (cases "get_customer_try L db faults cid")
  have "fst (except_clause (r, w)) \<noteq> Inl (SqliteError op')"
    by (auto simp: except_clause_def split: sum.splits error.splits)
  with rw show "fst (get_customer L db faults cid) \<noteq> Inl (SqliteError op')"
    by (simp add: get_customer_def finally_clause_def)
qed

theorem store_error_reported_as_absent_witness:
  "fst (get_customer_try sample_lib json_store {SelectPurchases} ''CUST001'')
     = Inl (SqliteError SelectPurchases)
   \<and> get_customer sample_lib json_store {SelectPurchases} ''CUST001''
     = (Inr None, \<lparr>conn = ConnClosed, stdout = [DatabaseErrorMsg SelectPurchases]\<rparr>)"
proof -
  have g: "json_loads sample_lib interests_json = Some interests_list"
    by (simp add: sample_lib_def)
  have t: "fst (get_customer_try sample_lib json_store {SelectPurchases} ''CUST001'')
     = Inl (SqliteError SelectPurchases)"
    by (simp add: get_customer_try_def json_store_found reconstruct_def json_address
        json_garden [OF g] db_op_def)
  with store_error_reported_as_absent
         [of sample_lib json_store "{SelectPurchases}" "''CUST001''" SelectPurchases]
  show ?thesis by simp
qed



text \<open>
  Claim C4 says that for a row with a non-empty \<^verbatim>\<open>garden_type\<close> whose \<^verbatim>\<open>garden_interests\<close>
  holds the serialized list of the three interests, the fetched customer's garden profile
  has exactly these three strings, in this order. On the code, with any \<^verbatim>\<open>json.loads\<close>
  that decodes the text to the list, lines 114 to 122 do build the profile with the three
  strings in order, but the fetch yields no customer: it raises \<^verbatim>\<open>NameError\<close>.
\<close>

theorem stored_json_interests_fetch_raises:
  assumes "json_loads L interests_json = Some interests_list"
  shows "garden_profile_of L json_customer =
           Inr (Some \<lparr>gp_type = ''Vegetable Garden'', gp_size = ''Medium'',
                      gp_sun_exposure = ''Full Sun'', gp_soil_type = ''Loamy'',
                      gp_interests = [''Organic Gardening'', ''Composting'', ''Herb Growing'']\<rparr>)
         \<and> get_customer L json_store {} ''CUST001''
             = (Inl NameError, \<lparr>conn = ConnClosed, stdout = []\<rparr>)"
proof -
  from json_customer_well_formed [OF assms]
  obtain cd where "reconstruct L json_store {} ''CUST001'' json_customer = Inr cd"
    using reconstruct_valid [of L json_store "''CUST001''" json_customer]
    by (auto simp: is_valid_iff)
  then have "and_then (reconstruct L json_store {} ''CUST001'' json_customer) cls_call
      = Inl NameError"
    by (simp add: cls_call_def)
  then have "get_customer L json_store {} ''CUST001''
      = (Inl NameError, \<lparr>conn = ConnClosed, stdout = []\<rparr>)"
    by (simp add: get_customer_found [OF json_store_found] except_clause_def)
  with json_garden [OF assms] show ?thesis by simp
qed

theorem stored_json_interests_fetch_raises_witness:
  "json_loads sample_lib interests_json = Some interests_list
   \<and> get_customer sample_lib json_store {} ''CUST001''
       = (Inl NameError, \<lparr>conn = ConnClosed, stdout = []\<rparr>)"
proof -
  have h: "json_loads sample_lib interests_json = Some interests_list"
    by (simp add: sample_lib_def)
  from stored_json_interests_fetch_raises [OF h] h show ?thesis by simp
qed





text \<open>
  Claim C7 says that fetching a row stored with \<^verbatim>\<open>comm_pref_email=1\<close>,
  \<^verbatim>\<open>comm_pref_sms=0\<close>, \<^verbatim>\<open>comm_pref_push=1\<close> yields a customer whose preferences are
  (true, false, true). On the code, lines 108 to 112 compute exactly these preferences,
  but the fetch of such a row yields no customer: with a store that does not fail, it ends
  with an exception.
\<close>

theorem prefs_1_0_1_fetch_raises:
  assumes "fetchone_customer db cid = Some row"
    and "c_comm_pref_email row = SInt 1"
    and "c_comm_pref_sms row = SInt 0"
    and "c_comm_pref_push row = SInt 1"
  shows "comm_prefs_of row = \<lparr>cp_email = True, cp_sms = False, cp_push_notifications = True\<rparr>
         \<and> (\<exists>e. get_customer L db {} cid = (Inl e, \<lparr>conn = ConnClosed, stdout = []\<rparr>))"
proof -
  have 1: "comm_prefs_of row = \<lparr>cp_email = True, cp_sms = False, cp_push_notifications = True\<rparr>"
    using assms(2-4) by (simp add: comm_prefs_of_def CommunicationPreferences_def)
  have "\<exists>e. and_then (reconstruct L db {} cid row) cls_call = Inl e"
    by (cases "reconstruct L db {} cid row") (simp_all add: cls_call_def)
  then obtain e where e: "and_then (reconstruct L db {} cid row) cls_call = Inl e" ..
  have "\<forall>op. Inl e \<noteq> (Inl (SqliteError op) :: error + customer option)"
  proof (cases "reconstruct L db {} cid row")
    case (Inl e')
    with e reconstruct_error [OF Inl] show ?thesis by auto
  next
    case (Inr cd)
    with e show ?thesis by (auto simp: cls_call_def)
  qed
  then have "except_clause (Inl e, \<lparr>conn = ConnOpen, stdout = []\<rparr>)
      = (Inl e, \<lparr>conn = ConnOpen, stdout = []\<rparr>)"
    by (rule except_clause_other)
  with e have "get_customer L db {} cid = (Inl e, \<lparr>conn = ConnClosed, stdout = []\<rparr>)"
    by (simp add: get_customer_found [OF assms(1)])
  with 1 show ?thesis by blast
qed

theorem prefs_1_0_1_fetch_raises_witness:
  "fetchone_customer seed_store ''CUST001'' = Some seed_customer
   \<and> c_comm_pref_email seed_customer = SInt 1
   \<and> c_comm_pref_sms seed_customer = SInt 0
   \<and> c_comm_pref_push seed_customer = SInt 1
   \<and> comm_prefs_of seed_customer
       = \<lparr>cp_email = True, cp_sms = False, cp_push_notifications = True\<rparr>
   \<and> (\<exists>e. get_customer sample_lib seed_store {} ''CUST001''
              = (Inl e, \<lparr>conn = ConnClosed, stdout = []\<rparr>))"
proof -
  have h: "c_comm_pref_email seed_customer = SInt 1" "c_comm_pref_sms seed_customer = SInt 0"
    "c_comm_pref_push seed_customer = SInt 1"
    by (simp_all add: seed_customer_def)
  from prefs_1_0_1_fetch_raises [OF seed_store_found h, of sample_lib] seed_store_found h
  show ?thesis by simp
qed

text \<open>
  Claim C8: the connection that was opened is closed on every exit. For every input and
  every failure of the store, the connection is open at the end of the \<^verbatim>\<open>try\<close> suite
  exactly when \<^verbatim>\<open>connect\<close> succeeded, and then it is closed when the call completes,
  whether the call returns \<^verbatim>\<open>None\<close> or raises.
\<close>

theorem connection_closed_on_every_exit:
  "conn (snd (get_customer_try L db faults cid)) = (if Connect \<in> faults then NoConn else ConnOpen)
   \<and> conn (snd (get_customer L db faults cid)) = (if Connect \<in> faults then NoConn else ConnClosed)"
  by (simp add: get_customer_def finally_clause_def conn_except conn_try)

theorem connection_closed_on_every_exit_witness:
  "conn (snd (get_customer_try sample_lib seed_store {SelectCustomer} ''CUST001'')) = ConnOpen
   \<and> conn (snd (get_customer sample_lib seed_store {SelectCustomer} ''CUST001'')) = ConnClosed
   \<and> conn (snd (get_customer sample_lib seed_store {} ''CUST001'')) = ConnClosed
   \<and> conn (snd (get_customer sample_lib seed_store {} ''NOBODY'')) = ConnClosed
   \<and> conn (snd (get_customer sample_lib seed_store {Connect} ''CUST001'')) = NoConn"
  using connection_closed_on_every_exit [of sample_lib seed_store "{SelectCustomer}" "''CUST001''"]
    connection_closed_on_every_exit [of sample_lib seed_store "{}" "''CUST001''"]
    connection_closed_on_every_exit [of sample_lib seed_store "{}" "''NOBODY''"]
    connection_closed_on_every_exit [of sample_lib seed_store "{Connect}" "''CUST001''"]
  by simp



text \<open>
  Claim C10: for an integer stored in \<^verbatim>\<open>comm_pref_email\<close>, \<^verbatim>\<open>comm_pref_sms\<close> or
  \<^verbatim>\<open>comm_pref_push\<close>, the reconstructed flag is true exactly when the integer is not
  zero; and these flags are the ones \<^verbatim>\<open>customer_data\<close> carries.
\<close>

theorem flag_true_iff_nonzero:
  "(c_comm_pref_email row = SInt e \<longrightarrow> cp_email (comm_prefs_of row) = (e \<noteq> 0))
   \<and> (c_comm_pref_sms row = SInt s \<longrightarrow> cp_sms (comm_prefs_of row) = (s \<noteq> 0))
   \<and> (c_comm_pref_push row = SInt p \<longrightarrow> cp_push_notifications (comm_prefs_of row) = (p \<noteq> 0))
   \<and> (reconstruct L db faults cid row = Inr cd \<longrightarrow>
        cd_communication_preferences cd = comm_prefs_of row)"
  using reconstruct_comm_prefs [of L db faults cid row cd]
  by (simp add: comm_prefs_of_def CommunicationPreferences_def)

theorem flag_true_iff_nonzero_witness:
  "cp_email (comm_prefs_of (seed_customer\<lparr>c_comm_pref_email := SInt 2,
        c_comm_pref_sms := SInt (- 1), c_comm_pref_push := SInt 0\<rparr>)) = True
   \<and> cp_sms (comm_prefs_of (seed_customer\<lparr>c_comm_pref_email := SInt 2,
        c_comm_pref_sms := SInt (- 1), c_comm_pref_push := SInt 0\<rparr>)) = True
   \<and> cp_push_notifications (comm_prefs_of (seed_customer\<lparr>c_comm_pref_email := SInt 2,
        c_comm_pref_sms := SInt (- 1), c_comm_pref_push := SInt 0\<rparr>)) = False
   \<and> (\<exists>cd. reconstruct sample_lib json_store {} ''CUST001'' json_customer = Inr cd
            \<and> cd_communication_preferences cd = comm_prefs_of json_customer)"
proof -
  let ?row = "seed_customer\<lparr>c_comm_pref_email := SInt 2,
        c_comm_pref_sms := SInt (- 1), c_comm_pref_push := SInt 0\<rparr>"
  have "json_loads sample_lib interests_json = Some interests_list"
    by (simp add: sample_lib_def)
  from json_customer_well_formed [OF this]
  obtain cd where cd: "reconstruct sample_lib json_store {} ''CUST001'' json_customer = Inr cd"
    using reconstruct_valid [of sample_lib json_store "''CUST001''" json_customer]
    by (auto simp: is_valid_iff)
  from flag_true_iff_nonzero [of ?row 2 "- 1" 0]
    flag_true_iff_nonzero [of json_customer _ _ _ sample_lib json_store "{}" "''CUST001''" cd] cd
  show ?thesis by auto
qed

end
